theory Spec2Isabelle
  imports Complex_Main "HOL-Library.Sublist"
begin

section \<open>Text\<close>

text \<open>
  Python text is modelled by \<^typ>\<open>string\<close>: one \<^typ>\<open>char\<close> for each ASCII character,
  and the UTF-8 bytes of any other character. All keywords and patterns of the repository
  are ASCII. A byte above 127 is left alone by \<open>lower\<close> and is neither a digit, a word
  character nor white space; this is what Python does for ASCII text and for punctuation
  such as the dash of the invoice scenario.
\<close>

definition lower_char :: "char \<Rightarrow> char" where
  "lower_char c =
     (let n = (of_char c :: nat) in if 65 \<le> n \<and> n \<le> 90 then char_of (n + 32) else c)"

definition lower :: "string \<Rightarrow> string" where
  "lower s = map lower_char s"

text \<open>\<open>k in s\<close> on Python strings: \<open>k\<close> occurs in \<open>s\<close> as a contiguous run.\<close>

primrec str_in :: "string \<Rightarrow> string \<Rightarrow> bool" where
  "str_in k [] = (k = [])"
| "str_in k (c # cs) = (prefix k (c # cs) \<or> str_in k cs)"

text \<open>\<open>any(word in s for word in words)\<close>.\<close>

definition any_in :: "string list \<Rightarrow> string \<Rightarrow> bool" where
  "any_in words s = list_ex (\<lambda>w. str_in w s) words"

text \<open>\<open>sum(1 for word in words if word in s)\<close>.\<close>

definition count_in :: "string list \<Rightarrow> string \<Rightarrow> nat" where
  "count_in words s = length (filter (\<lambda>w. str_in w s) words)"

text \<open>
  \<open>os.path.splitext(p)[1]\<close> on a POSIX path: the extension starts at the last dot of the
  last path component, unless only dots precede it in that component.
\<close>

definition basename :: "string \<Rightarrow> string" where
  "basename p = rev (takeWhile (\<lambda>c. c \<noteq> CHR ''/'') (rev p))"

definition splitext_ext :: "string \<Rightarrow> string" where
  "splitext_ext p =
     (let b = basename p;
          tail = rev (takeWhile (\<lambda>c. c \<noteq> CHR ''.'') (rev b));
          stem = take (length b - length tail - 1) b
      in if CHR ''.'' \<in> set b \<and> list_ex (\<lambda>c. c \<noteq> CHR ''.'') stem
         then CHR ''.'' # tail else [])"

text \<open>\<open>sep.join(parts)\<close>.\<close>

fun join :: "string \<Rightarrow> string list \<Rightarrow> string" where
  "join sep [] = []"
| "join sep [x] = x"
| "join sep (x # y # ys) = x @ sep @ join sep (y # ys)"

text \<open>\<open>d.get(k, default)\<close> on a dictionary kept as an association list.\<close>

definition dict_get :: "('k \<times> 'v) list \<Rightarrow> 'k \<Rightarrow> 'v \<Rightarrow> 'v" where
  "dict_get d k dflt = (case map_of d k of None \<Rightarrow> dflt | Some v \<Rightarrow> v)"

section \<open>Python values\<close>

text \<open>
  The values that the records of the pipeline and the payloads of the cache are made of.
  Dictionaries keep their insertion order and have string keys (\<open>Dict[str, Any]\<close>). A float
  is modelled by the rational it denotes. \<open>PSet\<close> stands for a value that \<open>json.dumps\<close>
  rejects with a \<open>TypeError\<close>.
\<close>

datatype pyval =
    PNone
  | PBool bool
  | PInt int
  | PFloat rat
  | PStr string
  | PList "pyval list"
  | PTuple "pyval list"
  | PDict "(string \<times> pyval) list"
  | PSet "pyval list"

type_synonym pydict = "(string \<times> pyval) list"

section \<open>The classifier (classifier.py)\<close>

definition format_mappings :: "(string \<times> string) list" where
  "format_mappings =
     [(''.pdf'', ''PDF''), (''.json'', ''JSON''), (''.txt'', ''Email''), (''.eml'', ''Email'')]"

definition intent_keywords :: "(string \<times> string list) list" where
  "intent_keywords =
     [(''Invoice'', [''invoice'', ''bill'', ''payment'', ''amount due'', ''billing'']),
      (''RFQ'', [''rfq'', ''quote'', ''quotation'', ''pricing'', ''request for quote'']),
      (''Complaint'', [''complaint'', ''issue'', ''problem'', ''dissatisfied'', ''error'']),
      (''Regulation'', [''regulation'', ''compliance'', ''policy'', ''guideline'', ''standard'']),
      (''Contract'', [''contract'', ''agreement'', ''terms'', ''conditions'']),
      (''Report'', [''report'', ''analysis'', ''summary'', ''findings''])]"

text \<open>
  The file system as the classifier and the readers see it. Each query gives \<open>Inl msg\<close>
  when the call raises (\<open>msg\<close> is \<open>str(e)\<close>) and \<open>Inr\<close> the result otherwise:
  \<open>read_text\<close> is \<open>open(p, 'r', encoding='utf-8', errors='ignore').read()\<close>,
  \<open>load_json\<close> is \<open>json.dumps(json.load(open(p, 'r', encoding='utf-8')), indent=2)\<close>,
  \<open>getsize\<close> is \<open>os.path.getsize(p)\<close>.
\<close>

record file_system =
  read_text :: "string \<Rightarrow> string + string"
  load_json :: "string \<Rightarrow> string + string"
  getsize :: "string \<Rightarrow> string + nat"

definition read_file_content :: "file_system \<Rightarrow> string \<Rightarrow> string" where
  "read_file_content fs file_path =
     (let file_extension = lower (splitext_ext file_path)
      in case (if file_extension = ''.json'' then load_json fs file_path
               else read_text fs file_path) of
           Inr content \<Rightarrow> content
         | Inl e \<Rightarrow> ''Error reading file: '' @ e)"

text \<open>
  The loop of \<open>_classify_intent\<close> fills \<open>intent_scores\<close> in the order of \<open>intent_keywords\<close>,
  with the positive scores only.
\<close>

definition intent_scores :: "(string \<times> string list) list \<Rightarrow> string \<Rightarrow> (string \<times> nat) list" where
  "intent_scores table content_lower =
     filter (\<lambda>(intent, score). score > 0)
       (map (\<lambda>(intent, keywords). (intent, count_in keywords content_lower)) table)"

text \<open>
  \<open>max(d, key=d.get)\<close> walks the keys in insertion order and keeps the first key whose
  value is greater than every value before it.
\<close>

fun max_from :: "string \<times> nat \<Rightarrow> (string \<times> nat) list \<Rightarrow> string" where
  "max_from (bk, bv) [] = bk"
| "max_from (bk, bv) ((k, v) # rest) =
     (if v > bv then max_from (k, v) rest else max_from (bk, bv) rest)"

definition classify_intent :: "string \<Rightarrow> string" where
  "classify_intent content =
     (let content_lower = lower content
      in case intent_scores intent_keywords content_lower of
           [] \<Rightarrow> ''General''
         | first # rest \<Rightarrow> max_from first rest)"

definition high_urgency_keywords :: "string list" where
  "high_urgency_keywords = [''urgent'', ''asap'', ''immediate'', ''emergency'', ''critical'']"

definition medium_urgency_keywords :: "string list" where
  "medium_urgency_keywords = [''soon'', ''priority'', ''important'', ''timely'']"

definition classify_urgency :: "string \<Rightarrow> string" where
  "classify_urgency content =
     (let content_lower = lower content
      in if any_in high_urgency_keywords content_lower then ''High''
         else if any_in medium_urgency_keywords content_lower then ''Medium''
         else ''Low'')"

text \<open>
  \<open>round(x, 2)\<close>: to the nearest multiple of 1/100, a tie going to the even one.
\<close>

definition round2 :: "rat \<Rightarrow> rat" where
  "round2 x =
     (let y = x * 100; f = \<lfloor>y\<rfloor>; d = y - of_int f
      in of_int (if d < 1/2 then f else if d > 1/2 then f + 1
                 else if even f then f else f + 1) / 100)"

definition calculate_confidence :: "string \<Rightarrow> string \<Rightarrow> rat" where
  "calculate_confidence content intent =
     (if intent = ''General'' then 3/10
      else
        let content_lower = lower content;
            keywords = dict_get intent_keywords intent []
        in if keywords = [] then 1/2
           else
             let matches = count_in keywords content_lower
             in round2 (min (of_nat matches / of_nat (length keywords) + 3/10) 1))"

definition generate_processing_notes :: "string \<Rightarrow> string \<Rightarrow> string" where
  "generate_processing_notes format_type intent =
     (let notes1 =
            (if format_type = ''PDF'' then [''PDF document detected - text extraction required'']
             else if format_type = ''JSON''
               then [''JSON data detected - structure validation recommended'']
             else if format_type = ''Email''
               then [''Email content detected - sender and metadata extraction needed'']
             else []);
          notes2 =
            (if intent = ''Invoice'' then [''Invoice processing - extract amounts and dates'']
             else if intent = ''RFQ''
               then [''RFQ processing - identify requirements and pricing requests'']
             else if intent = ''Complaint''
               then [''Complaint processing - prioritize for customer service'']
             else [])
      in join ''; '' (notes1 @ notes2))"

text \<open>
  \<open>classify\<close>: the only call of the \<open>try\<close> block that \<open>_read_file_content\<close> does not
  guard itself is \<open>os.path.getsize\<close>; when it raises, the handler returns the four-key
  record. \<open>input_type\<close> is not read.
\<close>

definition classify :: "file_system \<Rightarrow> string \<Rightarrow> string \<Rightarrow> pydict" where
  "classify fs file_path input_type =
     (let file_extension = lower (splitext_ext file_path);
          format_type = dict_get format_mappings file_extension ''Unknown'';
          content = read_file_content fs file_path;
          intent = classify_intent content;
          urgency = classify_urgency content
      in case getsize fs file_path of
           Inr n \<Rightarrow>
             [(''format'', PStr format_type),
              (''intent'', PStr intent),
              (''urgency'', PStr urgency),
              (''confidence_score'', PFloat (calculate_confidence content intent)),
              (''file_size'', PInt (int n)),
              (''processing_notes'', PStr (generate_processing_notes format_type intent))]
         | Inl e \<Rightarrow>
             [(''format'', PStr ''Unknown''),
              (''intent'', PStr ''Unknown''),
              (''urgency'', PStr ''Low''),
              (''error'', PStr (''Classification error: '' @ e))])"

section \<open>The extraction pipeline (data_extractor.py)\<close>

subsection \<open>Keyword rules\<close>

definition classify_email_intent :: "string \<Rightarrow> string" where
  "classify_email_intent content =
     (let content_lower = lower content
      in if any_in [''rfq'', ''quote'', ''quotation'', ''pricing''] content_lower then ''RFQ''
         else if any_in [''complaint'', ''issue'', ''problem'', ''dissatisfied''] content_lower
           then ''Complaint''
         else if any_in [''invoice'', ''bill'', ''payment'', ''amount due''] content_lower
           then ''Invoice''
         else if any_in [''regulation'', ''compliance'', ''policy''] content_lower
           then ''Regulation''
         else ''General'')"

definition detect_urgency :: "string \<Rightarrow> string" where
  "detect_urgency content =
     (let content_lower = lower content
      in if any_in [''urgent'', ''asap'', ''immediate'', ''emergency''] content_lower then ''High''
         else if any_in [''soon'', ''priority'', ''important''] content_lower then ''Medium''
         else ''Low'')"

definition analyze_sentiment :: "string \<Rightarrow> string" where
  "analyze_sentiment content =
     (let positive_words = [''good'', ''great'', ''excellent'', ''satisfied'', ''happy'', ''pleased''];
          negative_words = [''bad'', ''terrible'', ''awful'', ''dissatisfied'', ''angry'', ''frustrated''];
          content_lower = lower content;
          positive_count = count_in positive_words content_lower;
          negative_count = count_in negative_words content_lower
      in if positive_count > negative_count then ''Positive''
         else if negative_count > positive_count then ''Negative''
         else ''Neutral'')"

subsection \<open>Regular expressions\<close>

text \<open>
  The patterns of the field extractors, as syntax trees, and the backtracking matcher of
  Python's \<open>re\<close>. A matcher state is the character before the current position (for \<open>\b\<close>)
  and the text still to read. \<open>ends r st\<close> lists the states in which a match of \<open>r\<close>
  begun in \<open>st\<close> can end, in the order in which backtracking tries them: the longer
  alternative of a greedy repetition first, the left branch of \<open>|\<close> first. The match that
  \<open>re\<close> reports is the head of that list.
\<close>

datatype regex =
    Sym "char \<Rightarrow> bool"
  | Seq regex regex
  | Alt regex regex
  | Opt regex
  | Star regex
  | WordB
  | Eps

type_synonym mstate = "char option \<times> string"

definition is_digit :: "char \<Rightarrow> bool" where
  "is_digit c = (let n = (of_char c :: nat) in 48 \<le> n \<and> n \<le> 57)"

definition is_upper :: "char \<Rightarrow> bool" where
  "is_upper c = (let n = (of_char c :: nat) in 65 \<le> n \<and> n \<le> 90)"

definition is_lower :: "char \<Rightarrow> bool" where
  "is_lower c = (let n = (of_char c :: nat) in 97 \<le> n \<and> n \<le> 122)"

definition is_word :: "char \<Rightarrow> bool" where
  "is_word c = (is_digit c \<or> is_upper c \<or> is_lower c \<or> c = CHR ''_'')"

definition is_space :: "char \<Rightarrow> bool" where
  "is_space c = (let n = (of_char c :: nat) in (9 \<le> n \<and> n \<le> 13) \<or> (28 \<le> n \<and> n \<le> 32))"

text \<open>\<open>\b\<close>: exactly one of the two neighbours is a word character.\<close>

definition word_boundary :: "mstate \<Rightarrow> bool" where
  "word_boundary st =
     ((case fst st of None \<Rightarrow> False | Some c \<Rightarrow> is_word c) \<noteq>
      (case snd st of [] \<Rightarrow> False | c # _ \<Rightarrow> is_word c))"

text \<open>
  A greedy repetition: one more round of the body where that round reads something, then
  the choice of stopping here. A round reads at least one character, so the length of the
  text bounds the number of rounds.
\<close>

primrec star_ends :: "(mstate \<Rightarrow> mstate list) \<Rightarrow> nat \<Rightarrow> mstate \<Rightarrow> mstate list" where
  "star_ends f 0 st = [st]"
| "star_ends f (Suc n) st =
     concat (map (star_ends f n) (filter (\<lambda>st'. length (snd st') < length (snd st)) (f st)))
       @ [st]"

primrec ends :: "regex \<Rightarrow> mstate \<Rightarrow> mstate list" where
  "ends (Sym P) st =
     (case snd st of [] \<Rightarrow> [] | c # cs \<Rightarrow> if P c then [(Some c, cs)] else [])"
| "ends (Seq a b) st = concat (map (ends b) (ends a st))"
| "ends (Alt a b) st = ends a st @ ends b st"
| "ends (Opt a) st = ends a st @ [st]"
| "ends (Star a) st = star_ends (ends a) (length (snd st)) st"
| "ends WordB st = (if word_boundary st then [st] else [])"
| "ends Eps st = [st]"

definition Chr :: "char \<Rightarrow> regex" where
  "Chr c = Sym (\<lambda>x. x = c)"

definition Plus :: "regex \<Rightarrow> regex" where
  "Plus r = Seq r (Star r)"

text \<open>\<open>r{n}\<close>.\<close>

primrec Rep :: "nat \<Rightarrow> regex \<Rightarrow> regex" where
  "Rep 0 r = Eps"
| "Rep (Suc n) r = Seq r (Rep n r)"

definition Digit :: regex where
  "Digit = Sym is_digit"

text \<open>
  \<open>re.findall(pattern, text)\<close> for a pattern without groups: the matches from left to
  right, each search resuming where the last match ended. None of the three patterns
  matches the empty string; a position where a pattern would is skipped.
\<close>

function findall_from :: "regex \<Rightarrow> char option \<Rightarrow> string \<Rightarrow> string list" where
  "findall_from r prev [] = []"
| "findall_from r prev (c # cs) =
     (case ends r (prev, c # cs) of
        [] \<Rightarrow> findall_from r (Some c) cs
      | st # _ \<Rightarrow>
          if length (snd st) < length (c # cs)
          then take (length (c # cs) - length (snd st)) (c # cs) # findall_from r (fst st) (snd st)
          else findall_from r (Some c) cs)"
  by pat_completeness auto
termination
  by (relation "measure (\<lambda>(r, prev, s). length s)") auto

definition findall :: "regex \<Rightarrow> string \<Rightarrow> string list" where
  "findall r s = findall_from r None s"

text \<open>\<open>\b\d{3}-\d{3}-\d{4}\b|\b\(\d{3}\)\s?\d{3}-\d{4}\b\<close>\<close>

definition phone_pattern :: regex where
  "phone_pattern =
     Alt (Seq WordB (Seq (Rep 3 Digit) (Seq (Chr CHR ''-'') (Seq (Rep 3 Digit)
            (Seq (Chr CHR ''-'') (Seq (Rep 4 Digit) WordB))))))
         (Seq WordB (Seq (Chr CHR ''('') (Seq (Rep 3 Digit) (Seq (Chr CHR '')'')
            (Seq (Opt (Sym is_space)) (Seq (Rep 3 Digit) (Seq (Chr CHR ''-'')
            (Seq (Rep 4 Digit) WordB))))))))"

text \<open>\<open>\b[A-Za-z0-9._%+-]+@[A-Za-z0-9.-]+\.[A-Z|a-z]{2,}\b\<close>\<close>

definition email_pattern :: regex where
  "email_pattern =
     Seq WordB
       (Seq (Plus (Sym (\<lambda>c. is_upper c \<or> is_lower c \<or> is_digit c \<or> c \<in> set ''._%+-'')))
       (Seq (Chr CHR ''@'')
       (Seq (Plus (Sym (\<lambda>c. is_upper c \<or> is_lower c \<or> is_digit c \<or> c \<in> set ''.-'')))
       (Seq (Chr CHR ''.'')
       (Seq (Rep 2 (Sym (\<lambda>c. is_upper c \<or> c = CHR ''|'' \<or> is_lower c)))
       (Seq (Star (Sym (\<lambda>c. is_upper c \<or> c = CHR ''|'' \<or> is_lower c)))
        WordB))))))"

text \<open>\<open>\$\d+(?:,\d{3})*(?:\.\d{2})?\<close>\<close>

definition amount_pattern :: regex where
  "amount_pattern =
     Seq (Chr CHR ''$'')
       (Seq (Plus Digit)
       (Seq (Star (Seq (Chr CHR '','') (Rep 3 Digit)))
            (Opt (Seq (Chr CHR ''.'') (Rep 2 Digit)))))"

subsection \<open>Field extraction and the text reader\<close>

text \<open>\<open>fields[k] = v\<close> on a dictionary that does not have the key \<open>k\<close> yet.\<close>

definition extract_email_fields :: "string \<Rightarrow> pydict" where
  "extract_email_fields content =
     (let phones = findall phone_pattern content;
          fields1 = (if phones \<noteq> [] then [(''phone_numbers'', PList (map PStr phones))] else []);
          emails = findall email_pattern content;
          fields2 = (if emails \<noteq> []
                     then fields1 @ [(''email_addresses'', PList (map PStr emails))] else fields1);
          amounts = findall amount_pattern content
      in if amounts \<noteq> [] then fields2 @ [(''amounts'', PList (map PStr amounts))] else fields2)"

definition extract_text_fields :: "string \<Rightarrow> pydict" where
  "extract_text_fields content = extract_email_fields content"

text \<open>\<open>content.split()\<close>: the maximal runs of characters that are not white space.\<close>

primrec split_go :: "string \<Rightarrow> string \<Rightarrow> string list" where
  "split_go [] cur = (if cur = [] then [] else [cur])"
| "split_go (c # cs) cur =
     (if is_space c then (if cur = [] then split_go cs [] else cur # split_go cs [])
      else split_go cs (cur @ [c]))"

definition split :: "string \<Rightarrow> string list" where
  "split s = split_go s []"

definition extract_from_text_file :: "file_system \<Rightarrow> string \<Rightarrow> pydict" where
  "extract_from_text_file fs file_path =
     (case read_text fs file_path of
        Inr content \<Rightarrow>
          [(''type'', PStr ''text''),
           (''content'', PStr content),
           (''word_count'', PInt (int (length (split content)))),
           (''extracted_fields'', PDict (extract_text_fields content)),
           (''sentiment'', PStr (analyze_sentiment content))]
      | Inl e \<Rightarrow> [(''error'', PStr (''Error extracting from text file: '' @ e))])"

subsection \<open>The entry points\<close>

text \<open>
  \<open>extract_from_file\<close> chooses the reader by the extension. The PDF reader and the JSON
  reader are parameters here; each catches its own failures and returns a dictionary.
\<close>

definition extract_from_file ::
  "(string \<Rightarrow> pydict) \<Rightarrow> (string \<Rightarrow> pydict) \<Rightarrow> file_system \<Rightarrow> string \<Rightarrow> pydict" where
  "extract_from_file extract_from_pdf extract_from_json_file fs file_path =
     (let file_extension = lower (splitext_ext file_path)
      in if file_extension = ''.pdf'' then extract_from_pdf file_path
         else if file_extension = ''.json'' then extract_from_json_file file_path
         else if file_extension \<in> set [''.txt'', ''.eml'']
           then extract_from_text_file fs file_path
         else [(''error'', PStr (''Unsupported file format: '' @ file_extension))])"

text \<open>
  \<open>extract_from_email\<close>. The parser of the standard library, \<open>Parser(policy=default).parsestr\<close>,
  is a parameter: it gives the message, or \<open>None\<close> when the \<open>try\<close> block around it and
  around the reading of the message raises. Of a message the reader uses the headers
  (\<open>msg.get(name)\<close>), the text \<open>str(msg.get_payload())\<close> and the value of
  \<open>_extract_email_body(msg)\<close>.
\<close>

record message =
  header :: "string \<Rightarrow> string option"
  payload :: string
  body :: pyval

definition extract_sender_from_text :: "string \<Rightarrow> string" where
  "extract_sender_from_text content =
     (case findall email_pattern content of [] \<Rightarrow> ''Unknown'' | e # _ \<Rightarrow> e)"

definition msg_get :: "message \<Rightarrow> string \<Rightarrow> string \<Rightarrow> string" where
  "msg_get msg name dflt = (case header msg name of None \<Rightarrow> dflt | Some v \<Rightarrow> v)"

definition extract_from_email ::
  "(string \<Rightarrow> message option) \<Rightarrow> file_system \<Rightarrow> string \<Rightarrow> pydict" where
  "extract_from_email parsestr fs file_path =
     (case read_text fs file_path of
        Inl e \<Rightarrow> [(''error'', PStr (''Error extracting from email: '' @ e))]
      | Inr content \<Rightarrow>
          (case parsestr content of
             Some msg \<Rightarrow>
               [(''type'', PStr ''email''),
                (''sender'', PStr (msg_get msg ''From'' ''Unknown'')),
                (''subject'', PStr (msg_get msg ''Subject'' ''No Subject'')),
                (''date'', PStr (msg_get msg ''Date'' ''Unknown'')),
                (''to'', PStr (msg_get msg ''To'' ''Unknown'')),
                (''body'', body msg),
                (''intent'', PStr (classify_email_intent
                                    (msg_get msg ''Subject'' [] @ '' '' @ payload msg))),
                (''urgency'', PStr (detect_urgency content)),
                (''extracted_fields'', PDict (extract_email_fields content))]
           | None \<Rightarrow>
               [(''type'', PStr ''email_text''),
                (''content'', PStr content),
                (''sender'', PStr (extract_sender_from_text content)),
                (''intent'', PStr (classify_email_intent content)),
                (''urgency'', PStr (detect_urgency content)),
                (''extracted_fields'', PDict (extract_email_fields content))]))"

subsection \<open>The JSON data-quality score\<close>


section \<open>The cache (memory_manager.py)\<close>

subsection \<open>JSON text\<close>

text \<open>
  The \<open>data\<close> column holds the text written by \<open>json.dumps\<close>. The text is modelled by the
  JSON document it denotes. \<open>dumps\<close> writes a tuple as an array, like a list, and raises
  \<open>TypeError\<close> (here \<open>None\<close>) on a value with no JSON form; \<open>loads\<close> reads an array as a list
  and an object as a dictionary. An object written by \<open>dumps\<close> has the keys of the
  dictionary it comes from, each once.
\<close>

datatype json =
    JNull
  | JBool bool
  | JInt int
  | JFloat rat
  | JStr string
  | JArr "json list"
  | JObj "(string \<times> json) list"

fun dumps :: "pyval \<Rightarrow> json option" where
  "dumps PNone = Some JNull"
| "dumps (PBool b) = Some (JBool b)"
| "dumps (PInt n) = Some (JInt n)"
| "dumps (PFloat q) = Some (JFloat q)"
| "dumps (PStr s) = Some (JStr s)"
| "dumps (PList xs) = map_option JArr (those (map dumps xs))"
| "dumps (PTuple xs) = map_option JArr (those (map dumps xs))"
| "dumps (PDict kvs) =
     map_option JObj (those (map (\<lambda>kv. map_option (Pair (fst kv)) (dumps (snd kv))) kvs))"
| "dumps (PSet xs) = None"

fun loads :: "json \<Rightarrow> pyval" where
  "loads JNull = PNone"
| "loads (JBool b) = PBool b"
| "loads (JInt n) = PInt n"
| "loads (JFloat q) = PFloat q"
| "loads (JStr s) = PStr s"
| "loads (JArr xs) = PList (map loads xs)"
| "loads (JObj kvs) = PDict (map (\<lambda>kv. (fst kv, loads (snd kv))) kvs)"

text \<open>
  The payloads that are JSON values themselves: no tuple and no value without a JSON form
  anywhere inside.
\<close>

fun json_native :: "pyval \<Rightarrow> bool" where
  "json_native PNone = True"
| "json_native (PBool b) = True"
| "json_native (PInt n) = True"
| "json_native (PFloat q) = True"
| "json_native (PStr s) = True"
| "json_native (PList xs) = list_all json_native xs"
| "json_native (PTuple xs) = False"
| "json_native (PDict kvs) = list_all (\<lambda>kv. json_native (snd kv)) kvs"
| "json_native (PSet xs) = False"

subsection \<open>Time\<close>

text \<open>
  A \<open>datetime\<close> is the number of microseconds since 0001-01-01 00:00:00, the least
  \<open>datetime\<close>; the greatest one is 9999-12-31 23:59:59.999999. \<open>timedelta(hours=h)\<close> raises
  \<open>OverflowError\<close> when it spans more than 999999999 days, and so does the sum with a
  \<open>datetime\<close> that leaves the range; \<open>None\<close> stands for that exception. SQLite compares the
  ISO texts of two timestamps, which orders them as the numbers do.
\<close>

definition datetime_max :: int where
  "datetime_max = 3652059 * 86400 * 1000000 - 1"

definition add_hours :: "int \<Rightarrow> int \<Rightarrow> int option" where
  "add_hours now expires_hours =
     (let days = expires_hours div 24;
          t = now + expires_hours * 3600 * 1000000
      in if days < - 999999999 \<or> days > 999999999 then None
         else if t < 0 \<or> t > datetime_max then None
         else Some t)"

subsection \<open>The table \<open>memory_store\<close> and its operations\<close>

text \<open>
  A row of \<open>memory_store\<close>. \<open>key\<close> is the primary key; \<open>expires_at\<close> may be \<open>NULL\<close>;
  \<open>created_at\<close> is the value of \<open>CURRENT_TIMESTAMP\<close> when the row was written. The table is
  the list of its rows in the order of insertion.
\<close>

record row =
  key :: string
  data :: json
  created_at :: int
  expires_at :: "int option"

type_synonym memory_store = "row list"

text \<open>
  Each operation takes the reading of \<open>datetime.now()\<close> that it makes as \<open>now\<close>; \<open>store\<close>
  also takes the value \<open>ts\<close> of \<open>CURRENT_TIMESTAMP\<close>. The database itself is taken to
  answer every statement.

  \<open>store\<close>: \<open>expires_at\<close> and the argument \<open>json.dumps(data)\<close> are evaluated before
  \<open>cursor.execute\<close> runs; an exception in either goes to the handler, which returns
  \<open>False\<close>. \<open>INSERT OR REPLACE\<close> deletes the row that has the key and adds the new one.
\<close>

definition store :: "int \<Rightarrow> int \<Rightarrow> string \<Rightarrow> pyval \<Rightarrow> int \<Rightarrow> memory_store \<Rightarrow> bool \<times> memory_store" where
  "store now ts k d expires_hours rows =
     (case add_hours now expires_hours of
        None \<Rightarrow> (False, rows)
      | Some e \<Rightarrow>
          (case dumps d of
             None \<Rightarrow> (False, rows)
           | Some j \<Rightarrow>
               (True, filter (\<lambda>r. key r \<noteq> k) rows
                        @ [\<lparr>key = k, data = j, created_at = ts, expires_at = Some e\<rparr>])))"

text \<open>\<open>expires_at IS NULL OR expires_at > now\<close>\<close>

definition live :: "int \<Rightarrow> row \<Rightarrow> bool" where
  "live now r = (case expires_at r of None \<Rightarrow> True | Some e \<Rightarrow> e > now)"

text \<open>\<open>expires_at IS NOT NULL AND expires_at <= now\<close>\<close>

definition expired :: "int \<Rightarrow> row \<Rightarrow> bool" where
  "expired now r = (case expires_at r of None \<Rightarrow> False | Some e \<Rightarrow> e \<le> now)"

definition get :: "int \<Rightarrow> string \<Rightarrow> memory_store \<Rightarrow> pyval option" where
  "get now k rows =
     (case find (\<lambda>r. key r = k \<and> live now r) rows of
        None \<Rightarrow> None
      | Some r \<Rightarrow> Some (loads (data r)))"

definition delete :: "string \<Rightarrow> memory_store \<Rightarrow> bool \<times> memory_store" where
  "delete k rows = (True, filter (\<lambda>r. key r \<noteq> k) rows)"

text \<open>
  \<open>get_all_memory\<close>: the live rows, newest first. Rows with the same \<open>created_at\<close> are
  listed in the order of the table, which SQLite leaves open. The two timestamps of an
  entry are listed as numbers.
\<close>

definition memory_entry :: "row \<Rightarrow> pyval" where
  "memory_entry r =
     PDict [(''key'', PStr (key r)),
            (''data'', loads (data r)),
            (''created_at'', PInt (created_at r)),
            (''expires_at'', (case expires_at r of None \<Rightarrow> PNone | Some e \<Rightarrow> PInt e))]"

definition get_all_memory :: "int \<Rightarrow> memory_store \<Rightarrow> pyval list" where
  "get_all_memory now rows =
     map memory_entry (sort_key (\<lambda>r. - created_at r) (filter (live now) rows))"

text \<open>\<open>cleanup_expired\<close> returns \<open>cursor.rowcount\<close>, the number of rows deleted.\<close>

definition cleanup_expired :: "int \<Rightarrow> memory_store \<Rightarrow> nat \<times> memory_store" where
  "cleanup_expired now rows =
     (length (filter (expired now) rows), filter (\<lambda>r. \<not> expired now r) rows)"

section \<open>Notions of the specification\<close>


definition keyword_count :: "string \<Rightarrow> string \<Rightarrow> nat" where
  "keyword_count intent content =
     length (filter (\<lambda>k. sublist k (lower content)) (dict_get intent_keywords intent []))"

definition total_keywords :: "string \<Rightarrow> nat" where
  "total_keywords intent = length (dict_get intent_keywords intent [])"

section \<open>Example inputs\<close>

text \<open>
  A file system in which every file holds the eight bytes \<open>not json\<close>, which \<open>json.load\<close>
  rejects, and one in which no file exists.
\<close>

definition malformed_json_fs :: file_system where
  "malformed_json_fs =
     \<lparr>read_text = (\<lambda>p. Inr ''not json''),
      load_json = (\<lambda>p. Inl ''Expecting value: line 1 column 1 (char 0)''),
      getsize = (\<lambda>p. Inr 8)\<rparr>"

definition missing_file_fs :: file_system where
  "missing_file_fs =
     \<lparr>read_text = (\<lambda>p. Inl (''[Errno 2] No such file or directory: '' @ p)),
      load_json = (\<lambda>p. Inl (''[Errno 2] No such file or directory: '' @ p)),
      getsize = (\<lambda>p. Inl (''[Errno 2] No such file or directory: '' @ p))\<rparr>"

text \<open>\<open>{"point": (1, 2)}\<close>, which \<open>json.dumps\<close> accepts.\<close>

definition tuple_payload :: pyval where
  "tuple_payload = PDict [(''point'', PTuple [PInt 1, PInt 2])]"

text \<open>
  A table of three rows: two that expire at the times 100 and 101, and one that never
  expires, as a row written by another program can be.
\<close>

definition sample_rows :: memory_store where
  "sample_rows =
     [\<lparr>key = ''a'', data = JNull, created_at = 10, expires_at = Some 100\<rparr>,
      \<lparr>key = ''b'', data = JInt 1, created_at = 20, expires_at = Some 101\<rparr>,
      \<lparr>key = ''c'', data = JStr ''x'', created_at = 30, expires_at = None\<rparr>]"

text \<open>
  The text of the invoice scenario, the dash in its three UTF-8 bytes; a file system that
  holds it as \<open>invoice.txt\<close>, 47 bytes long; and a parser that finds no header line and
  takes the whole text as the payload, as the library's parser does for this text.
\<close>

definition invoice_content :: string where
  "invoice_content =
     ''Invoice '' @ [CHR 0xE2, CHR 0x80, CHR 0x94] @ '' amount due $450.00, please pay ASAP''"

definition invoice_fs :: file_system where
  "invoice_fs =
     \<lparr>read_text = (\<lambda>p. if p = ''invoice.txt'' then Inr invoice_content
                         else Inl (''[Errno 2] No such file or directory: '' @ p)),
      load_json = (\<lambda>p. Inl (''[Errno 2] No such file or directory: '' @ p)),
      getsize = (\<lambda>p. if p = ''invoice.txt'' then Inr 47
                       else Inl (''[Errno 2] No such file or directory: '' @ p))\<rparr>"

definition headerless :: "string \<Rightarrow> message option" where
  "headerless content = Some \<lparr>header = (\<lambda>name. None), payload = content, body = PStr content\<rparr>"

section \<open>Properties of the keyword rules\<close>

lemma str_in_sublist: "str_in k s \<longleftrightarrow> sublist k s"
  by (induction s) (auto simp: sublist_Cons_right)

text \<open>
  C2 (as stated): for every text the urgency of the extraction pipeline's detector equals
  the urgency of the classifier's scorer. It does not: the detector has neither
  \<open>critical\<close> nor \<open>timely\<close> among its keywords, so the text \<open>critical\<close> is \<open>Low\<close> for the
  detector and \<open>High\<close> for the classifier.
\<close>

theorem C2_urgency_differs: "detect_urgency ''critical'' \<noteq> classify_urgency ''critical''"
  by code_simp

text \<open>
  C2 (amended): the detector of the extraction pipeline gives \<open>High\<close> iff one of \<open>urgent\<close>,
  \<open>asap\<close>, \<open>immediate\<close>, \<open>emergency\<close> occurs in the lower-cased text, else \<open>Medium\<close> iff one
  of \<open>soon\<close>, \<open>priority\<close>, \<open>important\<close> occurs, else \<open>Low\<close>; on every text in which
  neither \<open>critical\<close> nor \<open>timely\<close> occurs it equals the classifier's urgency.
\<close>

theorem C2_urgency_agree:
  "detect_urgency c =
     (if \<exists>w \<in> {''urgent'', ''asap'', ''immediate'', ''emergency''}. sublist w (lower c)
        then ''High''
      else if \<exists>w \<in> {''soon'', ''priority'', ''important''}. sublist w (lower c)
        then ''Medium''
      else ''Low'')
   \<and> (\<not> sublist ''critical'' (lower c) \<and> \<not> sublist ''timely'' (lower c)
        \<longrightarrow> detect_urgency c = classify_urgency c)"
  by (simp add: detect_urgency_def classify_urgency_def any_in_def str_in_sublist
        high_urgency_keywords_def medium_urgency_keywords_def Let_def)

theorem C2_urgency_agree_witness:
  "\<not> sublist ''critical'' (lower ''Pay ASAP'') \<and> \<not> sublist ''timely'' (lower ''Pay ASAP'')
   \<and> detect_urgency ''Pay ASAP'' = ''High'' \<and> classify_urgency ''Pay ASAP'' = ''High''"
proof -
  have n: "\<not> sublist ''critical'' (lower ''Pay ASAP'') \<and> \<not> sublist ''timely'' (lower ''Pay ASAP'')"
    unfolding str_in_sublist [symmetric] by code_simp
  have h: "detect_urgency ''Pay ASAP'' = ''High''"
    by code_simp
  from C2_urgency_agree [of "''Pay ASAP''"] n h show ?thesis
    by simp
qed

section \<open>The intent of the classifier\<close>

lemma filter_split:
  "filter P xs = ps @ x # ss \<Longrightarrow>
     \<exists>us vs. xs = us @ x # vs \<and> filter P us = ps \<and> filter P vs = ss \<and> P x"
proof (induction xs arbitrary: ps)
  case Nil
  then show ?case by simp
next
  case (Cons a xs)
  show ?case
  proof (cases "P a")
    case False
    with Cons.prems have "filter P xs = ps @ x # ss" by simp
    from Cons.IH[OF this] obtain us vs where
      "xs = us @ x # vs" "filter P us = ps" "filter P vs = ss" "P x" by blast
    with False have "a # xs = (a # us) @ x # vs \<and> filter P (a # us) = ps \<and> filter P vs = ss \<and> P x"
      by simp
    then show ?thesis by blast
  next
    case True
    with Cons.prems have e: "a # filter P xs = ps @ x # ss" by simp
    show ?thesis
    proof (cases ps)
      case Nil
      with e have "a = x" "filter P xs = ss" by simp_all
      with True Nil have "a # xs = [] @ x # xs \<and> filter P [] = ps \<and> filter P xs = ss \<and> P x"
        by simp
      then show ?thesis by blast
    next
      case (Cons p ps')
      with e have "a = p" "filter P xs = ps' @ x # ss" by simp_all
      from Cons.IH[OF this(2)] obtain us vs where
        "xs = us @ x # vs" "filter P us = ps'" "filter P vs = ss" "P x" by blast
      with True Cons \<open>a = p\<close>
      have "a # xs = (a # us) @ x # vs \<and> filter P (a # us) = ps \<and> filter P vs = ss \<and> P x"
        by simp
      then show ?thesis by blast
    qed
  qed
qed

lemma max_from_split:
  "\<exists>ps ss s. (bk, bv) # rest = ps @ (max_from (bk, bv) rest, s) # ss \<and>
      (\<forall>x\<in>set ps. snd x < s) \<and> (\<forall>x\<in>set ss. snd x \<le> s)"
proof (induction rest arbitrary: bk bv)
  case Nil
  have "[(bk, bv)] = [] @ (max_from (bk, bv) [], bv) # []" by simp
  then show ?case by fastforce
next
  case (Cons kv rest)
  obtain k v where kv: "kv = (k, v)" by (cases kv)
  show ?case
  proof (cases "v > bv")
    case True
    from Cons.IH[of k v] obtain ps ss s where
      d: "(k, v) # rest = ps @ (max_from (k, v) rest, s) # ss"
      and lt: "\<forall>x\<in>set ps. snd x < s" and le: "\<forall>x\<in>set ss. snd x \<le> s" by blast
    have "bv < s"
    proof (cases ps)
      case Nil with d True show ?thesis by simp
    next
      case (Cons p ps') with d have "p = (k, v)" by simp
      with Cons lt True show ?thesis by auto
    qed
    with lt have lt': "\<forall>x\<in>set ((bk, bv) # ps). snd x < s" by simp
    have m: "max_from (bk, bv) (kv # rest) = max_from (k, v) rest"
      using True kv by simp
    have "(bk, bv) # kv # rest = ((bk, bv) # ps) @ (max_from (bk, bv) (kv # rest), s) # ss"
      using d kv m by simp
    with lt' le show ?thesis by blast
  next
    case False
    from Cons.IH[of bk bv] obtain ps ss s where
      d: "(bk, bv) # rest = ps @ (max_from (bk, bv) rest, s) # ss"
      and lt: "\<forall>x\<in>set ps. snd x < s" and le: "\<forall>x\<in>set ss. snd x \<le> s" by blast
    have m: "max_from (bk, bv) (kv # rest) = max_from (bk, bv) rest"
      using False kv by simp
    show ?thesis
    proof (cases ps)
      case Nil
      with d have e: "max_from (bk, bv) rest = bk" "s = bv" "ss = rest" by auto
      have le': "\<forall>x\<in>set (kv # rest). snd x \<le> bv" using le e False kv by auto
      have "(bk, bv) # kv # rest = [] @ (max_from (bk, bv) (kv # rest), bv) # (kv # rest)"
        using m e by simp
      with le' show ?thesis by fastforce
    next
      case (Cons p ps')
      with d have p: "p = (bk, bv)" and r: "rest = ps' @ (max_from (bk, bv) rest, s) # ss"
        by auto
      from Cons lt p have "bv < s" by auto
      with lt Cons p False kv have lt': "\<forall>x\<in>set ((bk, bv) # kv # ps'). snd x < s" by auto
      have "(bk, bv) # kv # rest =
              ((bk, bv) # kv # ps') @ (max_from (bk, bv) (kv # rest), s) # ss"
        using r m by simp
      with lt' le show ?thesis by blast
    qed
  qed
qed


lemma intent_winner:
  assumes sc: "intent_scores table cl = first # rest"
  shows "\<exists>tp kws ts. table = tp @ (max_from first rest, kws) # ts
           \<and> 0 < count_in kws cl
           \<and> (\<forall>(i, k) \<in> set tp. count_in k cl < count_in kws cl)
           \<and> (\<forall>(i, k) \<in> set ts. count_in k cl \<le> count_in kws cl)"
proof -
  let ?f = "\<lambda>(intent, keywords). (intent, count_in keywords cl)"
  let ?P = "\<lambda>(intent, score). score > (0::nat)"
  obtain bk bv where first: "first = (bk, bv)" by (cases first)
  from max_from_split[of bk bv rest] first obtain ps ss s where
    d: "first # rest = ps @ (max_from first rest, s) # ss"
    and lt: "\<forall>x\<in>set ps. snd x < s" and le: "\<forall>x\<in>set ss. snd x \<le> s" by auto
  from sc d have "filter ?P (map ?f table) = ps @ (max_from first rest, s) # ss"
    by (simp add: intent_scores_def)
  from filter_split[OF this] obtain us vs where
    m: "map ?f table = us @ (max_from first rest, s) # vs"
    and fu: "filter ?P us = ps" and fv: "filter ?P vs = ss" and pos: "0 < s" by auto
  from m obtain tp t1 where t: "table = tp @ t1" and u: "us = map ?f tp"
    and v1: "(max_from first rest, s) # vs = map ?f t1"
    by (auto simp: map_eq_append_conv)
  from v1 obtain z ts where t1: "t1 = z # ts" and z: "?f z = (max_from first rest, s)"
    and vs: "vs = map ?f ts" by (auto simp: Cons_eq_map_conv)
  obtain zi kws where zz: "z = (zi, kws)" by (cases z)
  with z have zi: "zi = max_from first rest" and s: "s = count_in kws cl" by simp_all
  have ltu: "\<forall>x\<in>set us. snd x < s"
  proof
    fix x assume x: "x \<in> set us"
    show "snd x < s"
    proof (cases "?P x")
      case True
      with x fu have "x \<in> set ps" by auto
      with lt show ?thesis by simp
    next
      case False
      with pos show ?thesis by (cases x) simp
    qed
  qed
  have lev: "\<forall>x\<in>set vs. snd x \<le> s"
  proof
    fix x assume x: "x \<in> set vs"
    show "snd x \<le> s"
    proof (cases "?P x")
      case True
      with x fv have "x \<in> set ss" by auto
      with le show ?thesis by simp
    next
      case False
      then show ?thesis by (cases x) simp
    qed
  qed
  have "table = tp @ (max_from first rest, kws) # ts" using t t1 zz zi by simp
  moreover have "0 < count_in kws cl" using pos s by simp
  moreover have "\<forall>(i, k) \<in> set tp. count_in k cl < count_in kws cl"
    using ltu u s by auto
  moreover have "\<forall>(i, k) \<in> set ts. count_in k cl \<le> count_in kws cl"
    using lev vs s by auto
  ultimately show ?thesis by blast
qed

lemma count_in_sublist: "count_in ws s = length (filter (\<lambda>k. sublist k s) ws)"
  by (simp add: count_in_def str_in_sublist)


lemma distinct_intent_keywords: "distinct (map fst intent_keywords)"
  by (simp add: intent_keywords_def)



lemma keyword_count_count_in:
  "keyword_count i c = count_in (dict_get intent_keywords i []) (lower c)"
  by (simp add: keyword_count_def count_in_sublist)


section \<open>The confidence of the classifier\<close>

lemma classify_intent_cases:
  "classify_intent c = ''General'' \<or>
   (\<exists>kws. (classify_intent c, kws) \<in> set intent_keywords \<and> 0 < count_in kws (lower c))"
proof (cases "intent_scores intent_keywords (lower c)")
  case Nil
  then show ?thesis by (simp add: classify_intent_def)
next
  case (Cons first rest)
  then have r: "classify_intent c = max_from first rest"
    by (simp add: classify_intent_def)
  from intent_winner[OF Cons] r obtain tp kw ts where
    "intent_keywords = tp @ (classify_intent c, kw) # ts" "0 < count_in kw (lower c)"
    by auto
  then have "(classify_intent c, kw) \<in> set intent_keywords \<and> 0 < count_in kw (lower c)"
    by (metis in_set_conv_decomp)
  then show ?thesis by blast
qed

text \<open>
  C4: the confidence that \<open>classify\<close> reports for a text, which is
  \<open>calculate_confidence\<close> at the classified intent, is 3/10 when that intent is
  \<open>General\<close>; otherwise it is the number of keywords of the intent that occur in the text,
  divided by the number of keywords of the intent, plus 3/10, capped at 1 and rounded to two
  decimal places. Floats are read as the rationals they stand for.
\<close>

theorem C4_confidence:
  "calculate_confidence c (classify_intent c) =
     (if classify_intent c = ''General'' then 3/10
      else round2 (min (of_nat (keyword_count (classify_intent c) c)
                          / of_nat (total_keywords (classify_intent c)) + 3/10) 1))"
proof (cases "classify_intent c = ''General''")
  case True
  then show ?thesis by (simp add: calculate_confidence_def)
next
  case False
  with classify_intent_cases[of c] obtain kws where
    m: "(classify_intent c, kws) \<in> set intent_keywords" and p: "0 < count_in kws (lower c)"
    by blast
  from m have g: "dict_get intent_keywords (classify_intent c) [] = kws"
    using distinct_intent_keywords by (simp add: dict_get_def)
  from p have ne: "kws \<noteq> []" by (auto simp: count_in_def)
  show ?thesis using False g ne
    by (simp add: calculate_confidence_def keyword_count_count_in total_keywords_def Let_def)
qed

text \<open>Witness for C4: a \<open>General\<close> text, and three of the five \<open>Invoice\<close> keywords.\<close>

theorem C4_confidence_witness:
  "classify_intent ''Hello there'' = ''General''
   \<and> calculate_confidence ''Hello there'' (classify_intent ''Hello there'') = 3/10
   \<and> classify_intent ''invoice, bill and payment'' = ''Invoice''
   \<and> calculate_confidence ''invoice, bill and payment'' (classify_intent ''invoice, bill and payment'') = 9/10"
proof -
  have g: "classify_intent ''Hello there'' = ''General''" by code_simp
  have i: "classify_intent ''invoice, bill and payment'' = ''Invoice''" by code_simp
  have r: "round2 (min (of_nat (keyword_count ''Invoice'' ''invoice, bill and payment'')
                          / of_nat (total_keywords ''Invoice'') + 3/10) 1) = 9/10"
    unfolding keyword_count_count_in by code_simp
  from C4_confidence [of "''Hello there''"] C4_confidence [of "''invoice, bill and payment''"] g i r
  show ?thesis by simp
qed

section \<open>Failures inside \<open>classify\<close>\<close>

text \<open>
  C1 (as stated): whenever reading or decoding the file fails, \<open>classify\<close> returns the
  degraded record. It does not for a file that exists and holds malformed JSON:
  \<open>_read_file_content\<close> catches the decode error itself and returns the text
  \<open>Error reading file: ...\<close>, which \<open>classify\<close> then scores like any content. The record
  has the format \<open>JSON\<close>, the intent \<open>Complaint\<close> (the text contains \<open>error\<close>), a confidence
  and no \<open>error\<close> note.
\<close>

theorem C1_malformed_json_scored:
  "load_json malformed_json_fs ''uploads/data.json''
     = Inl ''Expecting value: line 1 column 1 (char 0)''
   \<and> classify malformed_json_fs ''uploads/data.json'' ''json'' =
       [(''format'', PStr ''JSON''),
        (''intent'', PStr ''Complaint''),
        (''urgency'', PStr ''Low''),
        (''confidence_score'', PFloat (1/2)),
        (''file_size'', PInt 8),
        (''processing_notes'', PStr (''JSON data detected - structure validation recommended; ''
            @ ''Complaint processing - prioritize for customer service''))]"
  by code_simp

text \<open>
  C1 (amended): \<open>classify\<close> never raises. It returns the degraded record, with format
  \<open>Unknown\<close>, intent \<open>Unknown\<close>, urgency \<open>Low\<close> and an \<open>error\<close> note, when the query of the
  file size raises, as it does for a missing file. When that query succeeds the record has
  no \<open>error\<close> note, its format is the one of the file extension, and its intent and urgency
  are scored on what \<open>_read_file_content\<close> returned; that is the text
  \<open>Error reading file: ...\<close> when reading or decoding failed.
\<close>

theorem C1_classify:
  "(\<forall>e. getsize fs p = Inl e \<longrightarrow>
       classify fs p k =
         [(''format'', PStr ''Unknown''), (''intent'', PStr ''Unknown''),
          (''urgency'', PStr ''Low''), (''error'', PStr (''Classification error: '' @ e))])
   \<and> (\<forall>n. getsize fs p = Inr n \<longrightarrow>
         map_of (classify fs p k) ''error'' = None
       \<and> map_of (classify fs p k) ''format''
           = Some (PStr (dict_get format_mappings (lower (splitext_ext p)) ''Unknown''))
       \<and> map_of (classify fs p k) ''intent''
           = Some (PStr (classify_intent (read_file_content fs p)))
       \<and> map_of (classify fs p k) ''urgency''
           = Some (PStr (classify_urgency (read_file_content fs p)))
       \<and> map_of (classify fs p k) ''file_size'' = Some (PInt (int n)))
   \<and> (\<forall>e. (if lower (splitext_ext p) = ''.json'' then load_json fs p else read_text fs p) = Inl e
         \<longrightarrow> read_file_content fs p = ''Error reading file: '' @ e)"
  by (simp add: classify_def read_file_content_def Let_def)

text \<open>Witness for C1: a missing file, and an existing file with malformed JSON.\<close>

theorem C1_classify_witness:
  "getsize missing_file_fs ''uploads/gone.txt''
     = Inl ''[Errno 2] No such file or directory: uploads/gone.txt''
   \<and> classify missing_file_fs ''uploads/gone.txt'' ''file'' =
         [(''format'', PStr ''Unknown''), (''intent'', PStr ''Unknown''),
          (''urgency'', PStr ''Low''),
          (''error'', PStr ''Classification error: [Errno 2] No such file or directory: uploads/gone.txt'')]
   \<and> getsize malformed_json_fs ''uploads/data.json'' = Inr 8
   \<and> map_of (classify malformed_json_fs ''uploads/data.json'' ''json'') ''error'' = None
   \<and> map_of (classify malformed_json_fs ''uploads/data.json'' ''json'') ''format''
        = Some (PStr ''JSON'')
   \<and> read_file_content malformed_json_fs ''uploads/data.json''
        = ''Error reading file: Expecting value: line 1 column 1 (char 0)''"
proof -
  have a: "getsize missing_file_fs ''uploads/gone.txt''
             = Inl ''[Errno 2] No such file or directory: uploads/gone.txt''"
    by (simp add: missing_file_fs_def)
  have b: "getsize malformed_json_fs ''uploads/data.json'' = Inr 8"
    by (simp add: malformed_json_fs_def)
  have c: "(if lower (splitext_ext ''uploads/data.json'') = ''.json''
            then load_json malformed_json_fs ''uploads/data.json''
            else read_text malformed_json_fs ''uploads/data.json'')
           = Inl ''Expecting value: line 1 column 1 (char 0)''"
    by code_simp
  have f: "dict_get format_mappings (lower (splitext_ext ''uploads/data.json'')) ''Unknown'' = ''JSON''"
    by code_simp
  from C1_classify [of missing_file_fs "''uploads/gone.txt''" "''file''"] a
       C1_classify [of malformed_json_fs "''uploads/data.json''" "''json''"] b c f
  show ?thesis by simp
qed

section \<open>The JSON data-quality score\<close>



section \<open>The cache: storing and reading back\<close>

lemma those_map_Some:
  "(\<forall>x \<in> set xs. f x = Some (g x)) \<Longrightarrow> those (map f xs) = Some (map g xs)"
  by (induction xs) simp_all

lemma native_roundtrip:
  "json_native d \<Longrightarrow> \<exists>j. dumps d = Some j \<and> loads j = d"
proof (induction d)
  case (PList xs)
  then have a: "\<forall>x \<in> set xs. dumps x = Some (the (dumps x)) \<and> loads (the (dumps x)) = x"
    by (fastforce simp: list_all_iff)
  then have "those (map dumps xs) = Some (map (\<lambda>x. the (dumps x)) xs)"
    by (intro those_map_Some) simp
  moreover have "map loads (map (\<lambda>x. the (dumps x)) xs) = xs"
    using a by (simp add: map_idI)
  ultimately show ?case by simp
next
  case (PDict kvs)
  let ?f = "\<lambda>kv. map_option (Pair (fst kv)) (dumps (snd kv))"
  let ?g = "\<lambda>kv. (fst kv, the (dumps (snd kv)))"
  have a: "\<forall>kv \<in> set kvs. dumps (snd kv) = Some (the (dumps (snd kv)))
             \<and> loads (the (dumps (snd kv))) = snd kv"
  proof
    fix kv assume m: "kv \<in> set kvs"
    with PDict.prems have n: "json_native (snd kv)" by (simp add: list_all_iff)
    have "snd kv \<in> Basic_BNFs.snds kv" by (cases kv) simp
    from PDict.IH[OF m this n]
    show "dumps (snd kv) = Some (the (dumps (snd kv))) \<and> loads (the (dumps (snd kv))) = snd kv"
      by auto
  qed
  then have "\<forall>kv \<in> set kvs. ?f kv = Some (?g kv)" by simp
  then have "those (map ?f kvs) = Some (map ?g kvs)"
    by (rule those_map_Some)
  moreover have "map (\<lambda>kv. (fst kv, loads (snd kv))) (map ?g kvs) = kvs"
    using a by (simp add: map_idI)
  ultimately show ?case by simp
qed simp_all

lemma find_after_replace:
  "find (\<lambda>r. key r = k \<and> Q r) (filter (\<lambda>r. key r \<noteq> k) rows @ ys)
     = find (\<lambda>r. key r = k \<and> Q r) ys"
  by (induction rows) simp_all

lemma add_hours_24:
  "0 \<le> now \<Longrightarrow> now + 86400000000 \<le> datetime_max \<Longrightarrow>
     add_hours now 24 = Some (now + 86400000000)"
  by (simp add: add_hours_def Let_def)

text \<open>
  C6 (as stated): every JSON-serializable payload is read back identical. It is not: the
  dictionary \<open>{"point": (1, 2)}\<close> is serializable, and one microsecond after it was stored
  with a TTL of 24 hours \<open>get\<close> returns \<open>{"point": [1, 2]}\<close>, the tuple as a list.
\<close>

theorem C6_tuple_comes_back_as_list:
  "dumps tuple_payload \<noteq> None
   \<and> fst (store 63900000000000000 63900000000 ''k'' tuple_payload 24 [])
   \<and> get 63900000000000001 ''k'' (snd (store 63900000000000000 63900000000 ''k'' tuple_payload 24 []))
       = Some (PDict [(''point'', PList [PInt 1, PInt 2])])
   \<and> get 63900000000000001 ''k'' (snd (store 63900000000000000 63900000000 ''k'' tuple_payload 24 []))
       \<noteq> Some tuple_payload"
  by code_simp

text \<open>
  C6 (amended): let \<open>store\<close> be called with a JSON-serializable payload and a TTL of 24
  hours, at a time from which 24 hours can be added. It succeeds; \<open>get\<close> of the same key at
  any time before the call's time plus 24 hours returns what \<open>json.loads\<close> reads from the
  stored text, and \<open>get\<close> at that time or later returns absent. What is read is identical
  to the payload when the payload is a JSON value itself: built from \<open>None\<close>, booleans,
  numbers, strings, lists and dictionaries, without tuples.
\<close>

theorem C6_roundtrip:
  assumes "0 \<le> now" and "now + 86400000000 \<le> datetime_max"
    and "dumps d = Some j"
    and "store now ts k d 24 rows = (ok, rows')"
  shows "ok
     \<and> (\<forall>t. t < now + 86400000000 \<longrightarrow> get t k rows' = Some (loads j))
     \<and> (\<forall>t. now + 86400000000 \<le> t \<longrightarrow> get t k rows' = None)
     \<and> (json_native d \<longrightarrow> loads j = d)"
proof -
  let ?new = "\<lparr>key = k, data = j, created_at = ts, expires_at = Some (now + 86400000000)\<rparr>"
  from assms have ok: "ok" and r: "rows' = filter (\<lambda>r. key r \<noteq> k) rows @ [?new]"
    by (auto simp: store_def add_hours_24)
  have g: "\<And>t. get t k rows' = (if live t ?new then Some (loads j) else None)"
    unfolding get_def r find_after_replace by simp
  have n: "json_native d \<longrightarrow> loads j = d"
    using native_roundtrip[of d] assms(3) by auto
  show ?thesis using ok g n by (simp add: live_def)
qed

text \<open>
  Witness for C6: a nested payload stored in an empty table, read one microsecond later and
  read exactly 24 hours later.
\<close>

theorem C6_roundtrip_witness:
  "json_native (PDict [(''intent'', PStr ''Invoice''), (''tags'', PList [PInt 1, PNone])])
   \<and> get 63900000000000001 ''k''
        (snd (store 63900000000000000 63900000000 ''k''
               (PDict [(''intent'', PStr ''Invoice''), (''tags'', PList [PInt 1, PNone])]) 24 []))
       = Some (PDict [(''intent'', PStr ''Invoice''), (''tags'', PList [PInt 1, PNone])])
   \<and> get 63900086400000000 ''k''
        (snd (store 63900000000000000 63900000000 ''k''
               (PDict [(''intent'', PStr ''Invoice''), (''tags'', PList [PInt 1, PNone])]) 24 []))
       = None"
proof -
  let ?d = "PDict [(''intent'', PStr ''Invoice''), (''tags'', PList [PInt 1, PNone])]"
  let ?j = "JObj [(''intent'', JStr ''Invoice''), (''tags'', JArr [JInt 1, JNull])]"
  let ?s = "store 63900000000000000 63900000000 ''k'' ?d 24 []"
  have a: "(0::int) \<le> 63900000000000000" by simp
  have b: "(63900000000000000::int) + 86400000000 \<le> datetime_max"
    by (simp add: datetime_max_def)
  have c: "dumps ?d = Some ?j" by simp
  have e: "?s = (fst ?s, snd ?s)" by simp
  have n: "json_native ?d" by simp
  have l: "loads ?j = ?d" by simp
  from C6_roundtrip [OF a b c e] n l show ?thesis by simp
qed

text \<open>
  C10: when the payload is not JSON-serializable, \<open>store\<close> returns \<open>False\<close> and the table is
  the one it was called with: no row is added, replaced or removed.
\<close>

theorem C10_store_rejects:
  "dumps d = None \<Longrightarrow> store now ts k d expires_hours rows = (False, rows)"
  by (simp add: store_def split: option.splits)

text \<open>
  Witness for C10: a dictionary holding a set, stored under a key that already has a row.
\<close>

theorem C10_store_rejects_witness:
  "dumps (PDict [(''seen'', PSet [PInt 1])]) = None
   \<and> store 63900000000000000 63900000000 ''k'' (PDict [(''seen'', PSet [PInt 1])]) 24
        [\<lparr>key = ''k'', data = JNull, created_at = 0, expires_at = None\<rparr>]
       = (False, [\<lparr>key = ''k'', data = JNull, created_at = 0, expires_at = None\<rparr>])"
proof -
  have a: "dumps (PDict [(''seen'', PSet [PInt 1])]) = None" by simp
  from C10_store_rejects [OF a] a show ?thesis by simp
qed

section \<open>The cache: expiry\<close>

lemma memory_entry_key: "memory_entry r = memory_entry r' \<Longrightarrow> key r = key r'"
  by (simp add: memory_entry_def)

lemma distinct_key_eq:
  "distinct (map key rows) \<Longrightarrow> r \<in> set rows \<Longrightarrow> r' \<in> set rows \<Longrightarrow> key r = key r' \<Longrightarrow> r = r'"
  by (meson distinct_map inj_onD)

lemma set_get_all_memory:
  "set (get_all_memory t rows) = memory_entry ` {r \<in> set rows. live t r}"
  by (auto simp: get_all_memory_def)

lemma expired_iff: "expired now r \<longleftrightarrow> (\<exists>e. expires_at r = Some e \<and> e \<le> now)"
  by (simp add: expired_def split: option.splits)

lemma live_iff: "live now r \<longleftrightarrow> (\<forall>e. expires_at r = Some e \<longrightarrow> now < e)"
  by (simp add: live_def split: option.splits)

text \<open>
  C7: on a table whose keys are pairwise distinct (\<open>key\<close> is the primary key),
  \<open>cleanup_expired\<close> leaves exactly the rows that do not have an expiration time at or
  before the time of the call; it returns the number of rows that have one, which is the
  number of rows removed; a row without expiration time stays; and at any time the listing
  \<open>get_all_memory\<close> of the table left shows the rows that were kept and are live, and
  none of the rows removed.
\<close>

theorem C7_cleanup_expired:
  assumes d: "distinct (map key rows)"
    and c: "cleanup_expired now rows = (n, rows')"
  shows "set rows' = {r \<in> set rows. \<not> (\<exists>e. expires_at r = Some e \<and> e \<le> now)}
     \<and> n = card {r \<in> set rows. \<exists>e. expires_at r = Some e \<and> e \<le> now}
     \<and> length rows' + n = length rows
     \<and> (\<forall>r \<in> set rows. expires_at r = None \<longrightarrow> r \<in> set rows')
     \<and> (\<forall>t. set (get_all_memory t rows')
              = memory_entry ` {r \<in> set rows. \<not> (\<exists>e. expires_at r = Some e \<and> e \<le> now)
                                    \<and> (\<forall>e. expires_at r = Some e \<longrightarrow> t < e)})
     \<and> (\<forall>t. \<forall>r \<in> set rows. (\<exists>e. expires_at r = Some e \<and> e \<le> now)
              \<longrightarrow> memory_entry r \<notin> set (get_all_memory t rows'))"
proof -
  from c have n: "n = length (filter (expired now) rows)"
    and r: "rows' = filter (\<lambda>r. \<not> expired now r) rows"
    by (simp_all add: cleanup_expired_def)
  from d have dr: "distinct rows" by (simp add: distinct_map)
  have s: "set rows' = {r \<in> set rows. \<not> (\<exists>e. expires_at r = Some e \<and> e \<le> now)}"
    unfolding r by (auto simp: expired_iff)
  have "n = card (set (filter (expired now) rows))"
    unfolding n using dr distinct_card[of "filter (expired now) rows"] by simp
  also have "set (filter (expired now) rows)
               = {r \<in> set rows. \<exists>e. expires_at r = Some e \<and> e \<le> now}"
    by (auto simp: expired_iff)
  finally have k: "n = card {r \<in> set rows. \<exists>e. expires_at r = Some e \<and> e \<le> now}" .
  have l: "length rows' + n = length rows"
    unfolding n r using sum_length_filter_compl[of "expired now" rows] by simp
  have f: "\<forall>r \<in> set rows. expires_at r = None \<longrightarrow> r \<in> set rows'"
    unfolding s by simp
  have g: "\<forall>t. set (get_all_memory t rows')
              = memory_entry ` {r \<in> set rows. \<not> (\<exists>e. expires_at r = Some e \<and> e \<le> now)
                                    \<and> (\<forall>e. expires_at r = Some e \<longrightarrow> t < e)}"
    unfolding set_get_all_memory s by (auto simp: live_iff)
  have h: "\<forall>t. \<forall>r \<in> set rows. (\<exists>e. expires_at r = Some e \<and> e \<le> now)
              \<longrightarrow> memory_entry r \<notin> set (get_all_memory t rows')"
  proof (intro allI ballI impI notI)
    fix t r assume m: "r \<in> set rows" and x: "\<exists>e. expires_at r = Some e \<and> e \<le> now"
      and i: "memory_entry r \<in> set (get_all_memory t rows')"
    from i obtain r' where r': "r' \<in> set rows'" and e: "memory_entry r = memory_entry r'"
      by (auto simp: set_get_all_memory)
    from r' s have m': "r' \<in> set rows"
      and nx: "\<not> (\<exists>e. expires_at r' = Some e \<and> e \<le> now)" by auto
    from distinct_key_eq[OF d m m' memory_entry_key[OF e]] have "r = r'" .
    with x nx show False by simp
  qed
  from s k l f g h show ?thesis by blast
qed

text \<open>Witness for C7: the sweep at time 100 removes the first of the three rows.\<close>

theorem C7_cleanup_expired_witness:
  "distinct (map key sample_rows)
   \<and> cleanup_expired 100 sample_rows = (1, tl sample_rows)
   \<and> 1 = card {r \<in> set sample_rows. \<exists>e. expires_at r = Some e \<and> e \<le> 100}
   \<and> memory_entry (hd sample_rows) \<notin> set (get_all_memory 0 (tl sample_rows))"
proof -
  have d: "distinct (map key sample_rows)" by (simp add: sample_rows_def)
  have c: "cleanup_expired 100 sample_rows = (1, tl sample_rows)"
    by (simp add: sample_rows_def cleanup_expired_def expired_def)
  have m: "hd sample_rows \<in> set sample_rows" by (simp add: sample_rows_def)
  have x: "\<exists>e. expires_at (hd sample_rows) = Some e \<and> e \<le> 100"
    by (simp add: sample_rows_def)
  from C7_cleanup_expired [OF d c] m x d c show ?thesis by blast
qed

lemma find_unique_key:
  "distinct (map key rows) \<Longrightarrow> r \<in> set rows \<Longrightarrow> Q r \<Longrightarrow>
     find (\<lambda>x. key x = key r \<and> Q x) rows = Some r"
proof (induction rows)
  case Nil
  then show ?case by simp
next
  case (Cons a rows)
  show ?case
  proof (cases "a = r")
    case True
    with Cons.prems show ?thesis by simp
  next
    case False
    with Cons.prems have m: "r \<in> set rows" by simp
    with Cons.prems have "key a \<noteq> key r" by force
    with Cons m show ?thesis by simp
  qed
qed

text \<open>
  C9: when \<open>store\<close> succeeds, the table is the old one without the row of the key,
  followed by a row of the key whose expiration time is the time of the call plus the TTL
  in hours; when it fails the table is unchanged. So a row without expiration time in the
  table after \<open>store\<close> was in the table before, and after a successful \<open>store\<close> no row of
  the key is without one. Yet a row without expiration time, in a table with pairwise
  distinct keys, is returned by \<open>get\<close> at every time, listed by \<open>get_all_memory\<close> at every
  time, and kept by \<open>cleanup_expired\<close> at every time.
\<close>

theorem C9_store_expiry:
  assumes s: "store now ts k d expires_hours rows = (ok, rows')"
  shows "(ok \<longrightarrow> (\<exists>j. dumps d = Some j \<and>
             rows' = filter (\<lambda>r. key r \<noteq> k) rows
                       @ [\<lparr>key = k, data = j, created_at = ts,
                           expires_at = Some (now + expires_hours * 3600 * 1000000)\<rparr>]))
     \<and> (\<not> ok \<longrightarrow> rows' = rows)
     \<and> (\<forall>r \<in> set rows'. expires_at r = None \<longrightarrow> r \<in> set rows)
     \<and> (ok \<longrightarrow> (\<forall>r \<in> set rows'. key r = k \<longrightarrow>
           expires_at r = Some (now + expires_hours * 3600 * 1000000)))
     \<and> (\<forall>t. \<forall>r \<in> set rows. distinct (map key rows) \<and> expires_at r = None \<longrightarrow>
           get t (key r) rows = Some (loads (data r))
         \<and> memory_entry r \<in> set (get_all_memory t rows)
         \<and> r \<in> set (snd (cleanup_expired t rows)))"
proof -
  have a: "add_hours now expires_hours = Some e \<Longrightarrow> e = now + expires_hours * 3600 * 1000000" for e
    by (auto simp: add_hours_def Let_def split: if_splits)
  have 1: "ok \<longrightarrow> (\<exists>j. dumps d = Some j \<and>
             rows' = filter (\<lambda>r. key r \<noteq> k) rows
                       @ [\<lparr>key = k, data = j, created_at = ts,
                           expires_at = Some (now + expires_hours * 3600 * 1000000)\<rparr>])"
    using s a by (auto simp: store_def split: option.splits)
  have 2: "\<not> ok \<longrightarrow> rows' = rows"
    using s by (auto simp: store_def split: option.splits)
  have 3: "\<forall>r \<in> set rows'. expires_at r = None \<longrightarrow> r \<in> set rows"
  proof (cases ok)
    case True
    with 1 obtain j where "rows' = filter (\<lambda>r. key r \<noteq> k) rows
                       @ [\<lparr>key = k, data = j, created_at = ts,
                           expires_at = Some (now + expires_hours * 3600 * 1000000)\<rparr>]"
      by blast
    then show ?thesis by auto
  next
    case False
    with 2 show ?thesis by simp
  qed
  have 4: "ok \<longrightarrow> (\<forall>r \<in> set rows'. key r = k \<longrightarrow>
           expires_at r = Some (now + expires_hours * 3600 * 1000000))"
  proof
    assume ok
    with 1 obtain j where "rows' = filter (\<lambda>r. key r \<noteq> k) rows
                       @ [\<lparr>key = k, data = j, created_at = ts,
                           expires_at = Some (now + expires_hours * 3600 * 1000000)\<rparr>]"
      by blast
    then show "\<forall>r \<in> set rows'. key r = k \<longrightarrow>
           expires_at r = Some (now + expires_hours * 3600 * 1000000)" by auto
  qed
  have 5: "\<forall>t. \<forall>r \<in> set rows. distinct (map key rows) \<and> expires_at r = None \<longrightarrow>
           get t (key r) rows = Some (loads (data r))
         \<and> memory_entry r \<in> set (get_all_memory t rows)
         \<and> r \<in> set (snd (cleanup_expired t rows))"
  proof (intro allI ballI impI)
    fix t r assume m: "r \<in> set rows" and h: "distinct (map key rows) \<and> expires_at r = None"
    then have l: "live t r" by (simp add: live_def)
    from find_unique_key[of rows r "live t"] h m l
    have "get t (key r) rows = Some (loads (data r))" by (simp add: get_def)
    moreover have "memory_entry r \<in> set (get_all_memory t rows)"
      using m l by (auto simp: set_get_all_memory)
    moreover have "r \<in> set (snd (cleanup_expired t rows))"
      using m h by (simp add: cleanup_expired_def expired_def)
    ultimately show "get t (key r) rows = Some (loads (data r))
         \<and> memory_entry r \<in> set (get_all_memory t rows)
         \<and> r \<in> set (snd (cleanup_expired t rows))" by blast
  qed
  from 1 2 3 4 5 show ?thesis by blast
qed

text \<open>
  Witness for C9: a store with a TTL of two hours that replaces the row \<open>a\<close>, and the row
  \<open>c\<close> without expiration time.
\<close>

theorem C9_store_expiry_witness:
  "store 63900000000000000 63900000000 ''a'' (PInt 7) 2 sample_rows
     = (True, tl sample_rows
          @ [\<lparr>key = ''a'', data = JInt 7, created_at = 63900000000,
              expires_at = Some 63900007200000000\<rparr>])
   \<and> distinct (map key sample_rows)
   \<and> expires_at (last sample_rows) = None
   \<and> get 63900000000000000 ''c'' sample_rows = Some (PStr ''x'')
   \<and> last sample_rows \<in> set (snd (cleanup_expired 63900000000000000 sample_rows))"
proof -
  let ?s = "store 63900000000000000 63900000000 ''a'' (PInt 7) 2 sample_rows"
  have e: "?s = (fst ?s, snd ?s)" by simp
  have v: "?s = (True, tl sample_rows
          @ [\<lparr>key = ''a'', data = JInt 7, created_at = 63900000000,
              expires_at = Some 63900007200000000\<rparr>])"
    by (simp add: store_def add_hours_def datetime_max_def sample_rows_def)
  have d: "distinct (map key sample_rows)" by (simp add: sample_rows_def)
  have m: "last sample_rows \<in> set sample_rows" by (simp add: sample_rows_def)
  have n: "expires_at (last sample_rows) = None" by (simp add: sample_rows_def)
  have k: "key (last sample_rows) = ''c''" "loads (data (last sample_rows)) = PStr ''x''"
    by (simp_all add: sample_rows_def)
  from C9_store_expiry [OF e] m d n
  have "get 63900000000000000 (key (last sample_rows)) sample_rows
          = Some (loads (data (last sample_rows)))
        \<and> last sample_rows \<in> set (snd (cleanup_expired 63900000000000000 sample_rows))"
    by blast
  with v d n k show ?thesis by simp
qed

section \<open>The invoice scenario\<close>

lemma invoice_ext: "lower (splitext_ext ''invoice.txt'') = ''.txt''"
  by code_simp

lemma invoice_fields:
  "extract_email_fields invoice_content = [(''amounts'', PList [PStr ''$450.00''])]"
  unfolding invoice_content_def by code_simp

lemma invoice_words: "length (split invoice_content) = 8"
  unfolding invoice_content_def by code_simp

lemma invoice_sentiment: "analyze_sentiment invoice_content = ''Neutral''"
  unfolding invoice_content_def by code_simp

lemma invoice_email_intent: "classify_email_intent invoice_content = ''Invoice''"
  unfolding invoice_content_def by code_simp

lemma invoice_detect_urgency: "detect_urgency invoice_content = ''High''"
  unfolding invoice_content_def by code_simp

lemma invoice_classify_intent: "classify_intent invoice_content = ''Invoice''"
  unfolding invoice_content_def by code_simp

lemma invoice_classify_urgency: "classify_urgency invoice_content = ''High''"
  unfolding invoice_content_def by code_simp

lemma invoice_email_intent_sp: "classify_email_intent ('' '' @ invoice_content) = ''Invoice''"
  unfolding invoice_content_def by code_simp

text \<open>
  C8 (as stated): the extraction result for \<open>invoice.txt\<close> has the intent \<open>Invoice\<close> and the
  urgency \<open>High\<close>. The record that \<open>extract_from_file\<close> returns for a \<open>.txt\<close> file comes
  from the text reader and has neither an \<open>intent\<close> nor an \<open>urgency\<close> field.
\<close>

theorem C8_text_record_has_no_intent:
  "map_of (extract_from_file (\<lambda>p. []) (\<lambda>p. []) invoice_fs ''invoice.txt'') ''intent'' = None
   \<and> map_of (extract_from_file (\<lambda>p. []) (\<lambda>p. []) invoice_fs ''invoice.txt'') ''urgency'' = None"
  by (simp add: extract_from_file_def invoice_ext extract_from_text_file_def invoice_fs_def)

text \<open>
  C8 (amended): for the file \<open>invoice.txt\<close> with the content of the scenario,
  \<open>extract_from_file\<close> returns the text record with eight words, the extracted fields
  \<open>{amounts: ["$450.00"]}\<close> and the sentiment \<open>Neutral\<close>; \<open>extract_from_email\<close> returns a
  record with the urgency \<open>High\<close> and the same extracted fields, and with the intent
  \<open>Invoice\<close> when the parser fails or finds no \<open>Subject\<close> and takes the text as the payload;
  and the record of \<open>classify\<close>, when the file size can be read, has the intent \<open>Invoice\<close>
  and the urgency \<open>High\<close>.
\<close>

theorem C8_invoice_scenario:
  assumes "read_text fs ''invoice.txt'' = Inr invoice_content"
  shows "extract_from_file pdf_reader json_reader fs ''invoice.txt'' =
           [(''type'', PStr ''text''),
            (''content'', PStr invoice_content),
            (''word_count'', PInt 8),
            (''extracted_fields'', PDict [(''amounts'', PList [PStr ''$450.00''])]),
            (''sentiment'', PStr ''Neutral'')]
     \<and> map_of (extract_from_email parsestr fs ''invoice.txt'') ''urgency'' = Some (PStr ''High'')
     \<and> map_of (extract_from_email parsestr fs ''invoice.txt'') ''extracted_fields''
          = Some (PDict [(''amounts'', PList [PStr ''$450.00''])])
     \<and> (parsestr invoice_content = None
          \<or> (\<exists>msg. parsestr invoice_content = Some msg \<and> header msg ''Subject'' = None
                     \<and> payload msg = invoice_content)
         \<longrightarrow> map_of (extract_from_email parsestr fs ''invoice.txt'') ''intent''
               = Some (PStr ''Invoice''))
     \<and> (\<forall>n. getsize fs ''invoice.txt'' = Inr n \<longrightarrow>
           map_of (classify fs ''invoice.txt'' kind) ''intent'' = Some (PStr ''Invoice'')
         \<and> map_of (classify fs ''invoice.txt'' kind) ''urgency'' = Some (PStr ''High''))"
proof -
  have c: "read_file_content fs ''invoice.txt'' = invoice_content"
    using assms by (simp add: read_file_content_def invoice_ext)
  have e: "extract_from_file pdf_reader json_reader fs ''invoice.txt'' =
           [(''type'', PStr ''text''),
            (''content'', PStr invoice_content),
            (''word_count'', PInt 8),
            (''extracted_fields'', PDict [(''amounts'', PList [PStr ''$450.00''])]),
            (''sentiment'', PStr ''Neutral'')]"
    using assms
    by (simp add: extract_from_file_def invoice_ext extract_from_text_file_def
          extract_text_fields_def invoice_fields invoice_words invoice_sentiment)
  have u: "map_of (extract_from_email parsestr fs ''invoice.txt'') ''urgency''
             = Some (PStr ''High'')"
    using assms by (simp add: extract_from_email_def invoice_detect_urgency split: option.splits)
  have f: "map_of (extract_from_email parsestr fs ''invoice.txt'') ''extracted_fields''
          = Some (PDict [(''amounts'', PList [PStr ''$450.00''])])"
    using assms by (simp add: extract_from_email_def invoice_fields split: option.splits)
  have i: "parsestr invoice_content = None
          \<or> (\<exists>msg. parsestr invoice_content = Some msg \<and> header msg ''Subject'' = None
                     \<and> payload msg = invoice_content)
         \<longrightarrow> map_of (extract_from_email parsestr fs ''invoice.txt'') ''intent''
               = Some (PStr ''Invoice'')"
    using assms invoice_email_intent_sp
    by (auto simp: extract_from_email_def msg_get_def invoice_email_intent)
  have k: "\<forall>n. getsize fs ''invoice.txt'' = Inr n \<longrightarrow>
           map_of (classify fs ''invoice.txt'' kind) ''intent'' = Some (PStr ''Invoice'')
         \<and> map_of (classify fs ''invoice.txt'' kind) ''urgency'' = Some (PStr ''High'')"
    by (simp add: classify_def Let_def c invoice_classify_intent invoice_classify_urgency)
  from e u f i k show ?thesis by blast
qed

text \<open>Witness for C8: the file system that holds the invoice, and the parser without headers.\<close>

theorem C8_invoice_scenario_witness:
  "read_text invoice_fs ''invoice.txt'' = Inr invoice_content
   \<and> getsize invoice_fs ''invoice.txt'' = Inr 47
   \<and> map_of (extract_from_file (\<lambda>p. []) (\<lambda>p. []) invoice_fs ''invoice.txt'') ''extracted_fields''
        = Some (PDict [(''amounts'', PList [PStr ''$450.00''])])
   \<and> map_of (extract_from_email headerless invoice_fs ''invoice.txt'') ''intent''
        = Some (PStr ''Invoice'')
   \<and> map_of (extract_from_email headerless invoice_fs ''invoice.txt'') ''urgency''
        = Some (PStr ''High'')
   \<and> map_of (classify invoice_fs ''invoice.txt'' ''file'') ''intent'' = Some (PStr ''Invoice'')
   \<and> map_of (classify invoice_fs ''invoice.txt'' ''file'') ''urgency'' = Some (PStr ''High'')"
proof -
  have a: "read_text invoice_fs ''invoice.txt'' = Inr invoice_content"
    by (simp add: invoice_fs_def)
  have b: "getsize invoice_fs ''invoice.txt'' = Inr 47"
    by (simp add: invoice_fs_def)
  have h: "\<exists>msg. headerless invoice_content = Some msg \<and> header msg ''Subject'' = None
                     \<and> payload msg = invoice_content"
    by (simp add: headerless_def)
  from C8_invoice_scenario [OF a, of "\<lambda>p. []" "\<lambda>p. []" headerless "''file''"] a b h
  show ?thesis by simp
qed

end
